theory Spec2Isabelle
  imports Complex_Main
begin

section \<open>SortBot training script: the program\<close>

text \<open>
  The script \<^verbatim>\<open>src/train.py\<close> drives a deep-learning framework. The program's own
  logic (which path is loaded, which exception is caught, which directory a dataset comes
  from, in which order models are fitted, evaluated and saved, which batch sizes the driver
  visits) is translated here function by function. The framework's numerics are a
  parameter of the model (the record \<open>keras\<close> below): what one epoch of training does
  to the weights, what an evaluation returns and what deserialising a file yields are left
  open, and every theorem holds for all of them.

  The program is effectful. A \<open>world\<close> holds the mutable state it touches: the weights of
  the model objects, the files it wrote, the random source, and the ordered list of
  events it caused (framework calls, log records, printed lines). A function of the source
  that may raise returns \<open>(exn + 'a) \<times> world\<close>: the world is returned in both cases,
  since what was done before an exception was raised stays done.
\<close>

subsection \<open>Exceptions\<close>

datatype exc_class = FileNotFoundError | ValueError | OSError | OtherException

text \<open>An exception object: its class and the text \<^verbatim>\<open>str(exc)\<close> gives.\<close>

datatype exn = Exn (exc_cls: exc_class) (exc_msg: string)

text \<open>\<^verbatim>\<open>FileNotFoundError\<close> derives from \<^verbatim>\<open>OSError\<close>; the other classes are unrelated.\<close>

fun issubclass :: "exc_class \<Rightarrow> exc_class \<Rightarrow> bool" where
  "issubclass a b = (a = b \<or> (a = FileNotFoundError \<and> b = OSError))"

definition isinstance :: "exn \<Rightarrow> exc_class \<Rightarrow> bool" where
  "isinstance e c = issubclass (exc_cls e) c"

text \<open>
  Python's \<^verbatim>\<open>a or b\<close> on two objects is \<^verbatim>\<open>a\<close> when \<^verbatim>\<open>a\<close> is truthy and \<^verbatim>\<open>b\<close>
  otherwise. A class object is always truthy.
\<close>

definition class_truthy :: "exc_class \<Rightarrow> bool" where
  "class_truthy c = True"

definition py_or :: "exc_class \<Rightarrow> exc_class \<Rightarrow> exc_class" where
  "py_or a b = (if class_truthy a then a else b)"

subsection \<open>The network architecture\<close>

datatype activation = relu | softmax

datatype layer =
    Conv2D nat "nat \<times> nat" activation "(nat \<times> nat \<times> nat) option"
  | BatchNormalization
  | MaxPooling2D "nat \<times> nat"
  | Dropout real
  | Flatten
  | Dense nat activation

text \<open>The literal of lines 36 to 63: the layers of \<^verbatim>\<open>new_model\<close>, in order.\<close>

definition new_model_layers :: "layer list" where
  "new_model_layers =
    [ Conv2D 32 (3, 3) relu (Some (256, 256, 3)),
      BatchNormalization,
      MaxPooling2D (2, 2),
      Dropout (25 / 100),

      Conv2D 64 (3, 3) relu None,
      BatchNormalization,
      MaxPooling2D (2, 2),
      Dropout (25 / 100),

      Conv2D 128 (3, 3) relu None,
      BatchNormalization,
      MaxPooling2D (2, 2),
      Dropout (25 / 100),

      Conv2D 256 (3, 3) relu None,
      BatchNormalization,
      MaxPooling2D (2, 2),
      Dropout (25 / 100),

      Flatten,
      Dense 512 relu,
      BatchNormalization,
      Dropout (5 / 10),

      Dense 8 softmax ]"

text \<open>The width of a model's output: the units of its last layer, when that is dense.\<close>

fun dense_units :: "layer \<Rightarrow> nat option" where
  "dense_units (Dense n a) = Some n"
| "dense_units l = None"

definition output_width :: "layer list \<Rightarrow> nat option" where
  "output_width ls = (case rev ls of [] \<Rightarrow> None | l # _ \<Rightarrow> dense_units l)"

subsection \<open>Model objects, files, datasets, events\<close>

text \<open>
  A model is a Python object, and two names may refer to the same one. \<open>NewModel\<close> is the
  object built once at import time and bound to the module-level name \<^verbatim>\<open>new_model\<close>;
  \<open>Loaded n\<close> is the \<open>n\<close>-th object the framework's deserialiser created. The architecture
  of \<open>NewModel\<close> is the literal above and is never changed by the script; its weights are
  mutable state, like those of every other model object.
\<close>

datatype model_ref = NewModel | Loaded nat

datatype 'w artifact = WeightsFile 'w | ModelFile "layer list" 'w

record dataset =
  ds_dir :: string
  ds_seed :: int
  ds_image_size :: "nat \<times> nat"
  ds_batch_size :: int

record epoch_logs =
  el_accuracy :: real
  el_val_accuracy :: real
  el_loss :: real
  el_val_loss :: real

text \<open>
  The training history: for each of the four metric names the per-epoch values. The four
  keys \<^verbatim>\<open>plot_history\<close> reads are fields here, so a missing key cannot occur.
\<close>

record history =
  h_accuracy :: "real list"
  h_val_accuracy :: "real list"
  h_loss :: "real list"
  h_val_loss :: "real list"

datatype level = DEBUG | INFO | WARNING | ERROR

text \<open>The messages the script logs or prints, with their interpolated values.\<close>

datatype message =
    ErrorLoadingModel string
  | ModelCompiled
  | DatasetLoaded
  | ModelSaved
  | Tested int real
  | AverageAccuracy real

datatype 'w event =
    CallLoadModel string
  | Summary model_ref
  | Compile model_ref
  | ImageDatasetFromDirectory dataset
  | SaveWeights model_ref string
  | Fit model_ref dataset dataset int
  | EpochEnd nat epoch_logs
  | EarlyStop nat
  | Evaluate model_ref 'w dataset real
  | Save model_ref string
  | Logged level message
  | Printed message
  | PlotShown nat history

record 'w world =
  weights :: "model_ref \<Rightarrow> 'w"
  loaded_layers :: "nat \<Rightarrow> layer list"
  next_id :: nat
  fs :: "string \<Rightarrow> 'w artifact option"
  rand_source :: "nat \<Rightarrow> nat"
  rand_pos :: nat
  clock :: nat
  events :: "'w event list"

text \<open>
  The framework, as far as its results are not fixed by the script. \<open>k_load_model\<close> is
  \<^verbatim>\<open>tf.keras.models.load_model\<close>: from the files present and a path, either an exception
  or the architecture and weights read. \<open>k_train_epoch\<close> is one epoch of \<^verbatim>\<open>fit\<close>
  (new weights and the four metrics), \<open>k_evaluate\<close> is \<^verbatim>\<open>evaluate\<close> (loss, accuracy).
  Both take the \<open>clock\<close> of the world, which stands for whatever hidden state (shuffling
  order, hardware) makes two calls on the same arguments differ.
\<close>

record 'w keras =
  k_load_model :: "(string \<Rightarrow> 'w artifact option) \<Rightarrow> string \<Rightarrow> exn + (layer list \<times> 'w)"
  k_train_epoch :: "nat \<Rightarrow> layer list \<Rightarrow> 'w \<Rightarrow> dataset \<Rightarrow> dataset \<Rightarrow> nat \<Rightarrow> 'w \<times> epoch_logs"
  k_evaluate :: "nat \<Rightarrow> layer list \<Rightarrow> 'w \<Rightarrow> dataset \<Rightarrow> real \<times> real"

fun layers_of :: "'w world \<Rightarrow> model_ref \<Rightarrow> layer list" where
  "layers_of w NewModel = new_model_layers"
| "layers_of w (Loaded n) = loaded_layers w n"

definition emit :: "'w event \<Rightarrow> 'w world \<Rightarrow> 'w world" where
  "emit e w = w\<lparr>events := events w @ [e]\<rparr>"

text \<open>\<^verbatim>\<open>logging.error\<close>, \<^verbatim>\<open>logging.debug\<close>, \<^verbatim>\<open>logging.info\<close> on the root logger.\<close>

definition logging :: "level \<Rightarrow> message \<Rightarrow> 'w world \<Rightarrow> 'w world" where
  "logging lv m w = emit (Logged lv m) w"

definition py_print :: "message \<Rightarrow> 'w world \<Rightarrow> 'w world" where
  "py_print m w = emit (Printed m) w"

definition summary :: "model_ref \<Rightarrow> 'w world \<Rightarrow> 'w world" where
  "summary m w = emit (Summary m) w"

definition compile :: "model_ref \<Rightarrow> 'w world \<Rightarrow> 'w world" where
  "compile m w = emit (Compile m) w"

text \<open>A successful deserialisation creates a new model object.\<close>

definition new_object :: "layer list \<Rightarrow> 'w \<Rightarrow> 'w world \<Rightarrow> model_ref \<times> 'w world" where
  "new_object ls x w =
     (Loaded (next_id w),
      w\<lparr>weights := (weights w)(Loaded (next_id w) := x),
        loaded_layers := (loaded_layers w)(next_id w := ls),
        next_id := Suc (next_id w)\<rparr>)"

subsection \<open>\<^verbatim>\<open>load_model\<close> (lines 66 to 76)\<close>

text \<open>
  The handler is \<^verbatim>\<open>except FileNotFoundError or ValueError as exc\<close>: the expression after
  \<^verbatim>\<open>except\<close> is evaluated first, and the exception is caught when it is an instance of
  the class that expression yields.
\<close>

definition load_model :: "'w keras \<Rightarrow> string \<Rightarrow> 'w world \<Rightarrow> (exn + model_ref) \<times> 'w world" where
  "load_model K model_path w =
     (let w0 = emit (CallLoadModel model_path) w in
      case k_load_model K (fs w) model_path of
        Inr (ls, x) \<Rightarrow>
          (let (model, w1) = new_object ls x w0
           in (Inr model, summary model w1))
      | Inl exc \<Rightarrow>
          if isinstance exc (py_or FileNotFoundError ValueError) then
            (let model = NewModel;
                 w1 = logging ERROR (ErrorLoadingModel (exc_msg exc)) w0
             in (Inr model, summary model w1))
          else (Inl exc, w0))"

subsection \<open>\<^verbatim>\<open>generate_dataset\<close> (lines 79 to 91)\<close>

text \<open>
  \<^verbatim>\<open>random.randint(a, b)\<close> returns an integer \<open>N\<close> with \<open>a \<le> N \<le> b\<close>, here taken from
  the next raw draw of the world's random source. (It raises for \<open>b < a\<close>; at its only
  call site the bounds are the constants \<open>2 ^ 16\<close> and \<open>2 ^ 32 - 1\<close>.)
\<close>

definition randint :: "int \<Rightarrow> int \<Rightarrow> 'w world \<Rightarrow> int \<times> 'w world" where
  "randint a b w =
     (a + int (rand_source w (rand_pos w) mod nat (b - a + 1)),
      w\<lparr>rand_pos := Suc (rand_pos w)\<rparr>)"

text \<open>
  The dataset builder of the framework. A dataset is lazy: building it records where the
  images come from and how they are shuffled and batched.
\<close>

definition image_dataset_from_directory ::
  "string \<Rightarrow> int \<Rightarrow> nat \<times> nat \<Rightarrow> int \<Rightarrow> 'w world \<Rightarrow> dataset \<times> 'w world" where
  "image_dataset_from_directory directory seed image_size batch_size w =
     (let d = \<lparr>ds_dir = directory, ds_seed = seed,
                ds_image_size = image_size, ds_batch_size = batch_size\<rparr>
      in (d, emit (ImageDatasetFromDirectory d) w))"

definition generate_dataset :: "int \<Rightarrow> bool \<Rightarrow> 'w world \<Rightarrow> dataset \<times> 'w world" where
  "generate_dataset batch_size training w =
     (let data_dir = (if training then ''./dataset-resized/'' else ''./dataset-resized/val'');
          (seed, w1) = randint (2 ^ 16) (2 ^ 32 - 1) w
      in image_dataset_from_directory data_dir seed (256, 256) batch_size w1)"

text \<open>The default of the parameter \<^verbatim>\<open>training\<close>.\<close>

definition training_default :: bool where
  "training_default = True"

subsection \<open>\<^verbatim>\<open>test_model\<close> (lines 94 to 112)\<close>

text \<open>\<^verbatim>\<open>model.evaluate(test_dataset)\<close>: reads the weights the object has now.\<close>

definition evaluate ::
  "'w keras \<Rightarrow> model_ref \<Rightarrow> dataset \<Rightarrow> 'w world \<Rightarrow> (real \<times> real) \<times> 'w world" where
  "evaluate K model ds w =
     (let x = weights w model;
          (loss, acc) = k_evaluate K (clock w) (layers_of w model) x ds
      in ((loss, acc), (emit (Evaluate model x ds acc) w)\<lparr>clock := Suc (clock w)\<rparr>))"

text \<open>
  The loop \<^verbatim>\<open>for _ in range(times)\<close>, with the iterations left as first argument. (The
  parameter \<^verbatim>\<open>times\<close> is called \<open>ntimes\<close> below, \<open>times\<close> being the name of a constant.)
\<close>

fun evaluate_loop ::
  "nat \<Rightarrow> 'w keras \<Rightarrow> model_ref \<Rightarrow> dataset \<Rightarrow> real \<Rightarrow> 'w world \<Rightarrow> real \<times> 'w world" where
  "evaluate_loop 0 K model test_dataset avg_acc w = (avg_acc, w)"
| "evaluate_loop (Suc n) K model test_dataset avg_acc w =
     (let ((_, test_acc), w1) = evaluate K model test_dataset w
      in evaluate_loop n K model test_dataset ((avg_acc + test_acc) / 2) w1)"

definition test_model ::
  "'w keras \<Rightarrow> string \<Rightarrow> int \<Rightarrow> 'w world \<Rightarrow> (exn + real) \<times> 'w world" where
  "test_model K model_path ntimes w =
     (let avg_acc = 0 in
      case load_model K model_path w of
        (Inl exc, w1) \<Rightarrow> (Inl exc, w1)
      | (Inr model, w1) \<Rightarrow>
          (let w2 = compile model w1;
               w3 = logging DEBUG ModelCompiled w2;
               (test_dataset, w4) = generate_dataset 256 False w3;
               (avg_acc, w5) = evaluate_loop (nat ntimes) K model test_dataset avg_acc w4;
               w6 = py_print (AverageAccuracy avg_acc) w5;
               w7 = logging INFO (Tested ntimes avg_acc) w6
           in (Inr avg_acc, w7)))"

text \<open>The default of the parameter \<^verbatim>\<open>times\<close>.\<close>

definition times_default :: int where
  "times_default = 10"

subsection \<open>Paths\<close>

text \<open>
  \<^verbatim>\<open>"./training/cp-{epoch:04d}.weights.h5".format(epoch=n)\<close> for \<open>n \<ge> 0\<close>: the decimal
  digits of \<open>n\<close>, padded with zeros on the left to at least four characters.
\<close>

definition digit_char :: "nat \<Rightarrow> char" where
  "digit_char d = ''0123456789'' ! d"

fun decimal :: "nat \<Rightarrow> string" where
  "decimal n = (if n < 10 then [digit_char n]
                else decimal (n div 10) @ [digit_char (n mod 10)])"

declare decimal.simps [simp del]

definition zero_pad :: "nat \<Rightarrow> string \<Rightarrow> string" where
  "zero_pad width s = replicate (width - length s) (CHR ''0'') @ s"

definition checkpoint_path :: "nat \<Rightarrow> string" where
  "checkpoint_path epoch = ''./training/cp-'' @ zero_pad 4 (decimal epoch) @ ''.weights.h5''"

text \<open>
  \<^verbatim>\<open>s.replace(old, new)\<close>: scanning from the left, each occurrence of \<open>old\<close> found is
  replaced and the scan goes on behind it. For empty \<open>old\<close> Python puts \<open>new\<close> before
  every character and at the end.
\<close>

function str_replace :: "string \<Rightarrow> string \<Rightarrow> string \<Rightarrow> string" where
  "str_replace old new s =
     (if old = [] then new @ concat (map (\<lambda>c. c # new) s)
      else if s = [] then []
      else if take (length old) s = old then new @ str_replace old new (drop (length old) s)
      else hd s # str_replace old new (tl s))"
  by pat_completeness auto
termination
  by (relation "measure (\<lambda>(old, new, s). length s)") auto

declare str_replace.simps [simp del]

subsection \<open>The fit loop and its callbacks\<close>

text \<open>\<^verbatim>\<open>model.save_weights(path)\<close> and \<^verbatim>\<open>model.save(path)\<close>.\<close>

definition save_weights :: "model_ref \<Rightarrow> string \<Rightarrow> 'w world \<Rightarrow> 'w world" where
  "save_weights model path w =
     (emit (SaveWeights model path) w)\<lparr>fs := (fs w)(path \<mapsto> WeightsFile (weights w model))\<rparr>"

definition save :: "model_ref \<Rightarrow> string \<Rightarrow> 'w world \<Rightarrow> 'w world" where
  "save model path w =
     (emit (Save model path) w)
       \<lparr>fs := (fs w)(path \<mapsto> ModelFile (layers_of w model) (weights w model))\<rparr>"

record 'w early_stopping =
  es_wait :: nat
  es_best :: "real option"
  es_best_weights :: "'w option"

definition early_stopping_init :: "'w early_stopping" where
  "early_stopping_init = \<lparr>es_wait = 0, es_best = None, es_best_weights = None\<rparr>"

definition patience :: nat where
  "patience = 3"

text \<open>
  Modelled from the spec: the callback \<^verbatim>\<open>EarlyStopping(monitor='val_loss', patience=3,
  mode='min', restore_best_weights=True)\<close> is the framework's and not part of the sources.
  The spec: training stops early if validation loss stagnates for 3 epochs, restoring
  best weights on stop. The result is the callback's new state and whether to stop.
\<close>

definition early_stopping_on_epoch_end ::
  "'w early_stopping \<Rightarrow> real \<Rightarrow> 'w \<Rightarrow> 'w early_stopping \<times> bool" where
  "early_stopping_on_epoch_end es val_loss x =
     (if (case es_best es of None \<Rightarrow> True | Some b \<Rightarrow> val_loss < b)
      then (es\<lparr>es_wait := 0, es_best := Some val_loss, es_best_weights := Some x\<rparr>, False)
      else (es\<lparr>es_wait := Suc (es_wait es)\<rparr>, patience \<le> Suc (es_wait es)))"

definition restore_best_weights :: "'w early_stopping \<Rightarrow> model_ref \<Rightarrow> 'w world \<Rightarrow> 'w world" where
  "restore_best_weights es model w =
     (case es_best_weights es of
        None \<Rightarrow> w
      | Some x \<Rightarrow> w\<lparr>weights := (weights w)(model := x)\<rparr>)"

definition append_logs :: "history \<Rightarrow> epoch_logs \<Rightarrow> history" where
  "append_logs h l =
     \<lparr>h_accuracy = h_accuracy h @ [el_accuracy l],
      h_val_accuracy = h_val_accuracy h @ [el_val_accuracy l],
      h_loss = h_loss h @ [el_loss l],
      h_val_loss = h_val_loss h @ [el_val_loss l]\<rparr>"

definition empty_history :: history where
  "empty_history = \<lparr>h_accuracy = [], h_val_accuracy = [], h_loss = [], h_val_loss = []\<rparr>"

text \<open>
  Modelled from the spec: \<^verbatim>\<open>model.fit(dataset, validation_data, epochs, callbacks=
  [early_stopping, cp_callback])\<close> is the framework's and not part of the sources. The
  spec: the fit loop runs for up to N epochs, writing a checkpoint every epoch (the
  callback \<^verbatim>\<open>ModelCheckpoint(checkpoint_path, save_weights_only=True, save_freq='epoch')\<close>
  formats the path with the number of the epoch just completed, counted from 1) and
  stopping early on the decision of the early-stopping callback. An epoch trains the
  object in place: the weights of \<open>model\<close> are overwritten. The first argument counts the
  epochs left, \<open>epoch\<close> is the index of the epoch, from 0.
\<close>

fun fit_epochs ::
  "nat \<Rightarrow> 'w keras \<Rightarrow> model_ref \<Rightarrow> dataset \<Rightarrow> dataset \<Rightarrow> nat \<Rightarrow> 'w early_stopping \<Rightarrow> history
     \<Rightarrow> 'w world \<Rightarrow> history \<times> 'w world" where
  "fit_epochs 0 K model ds vds epoch es h w = (h, w)"
| "fit_epochs (Suc left) K model ds vds epoch es h w =
     (let (x, logs) = k_train_epoch K (clock w) (layers_of w model) (weights w model) ds vds epoch;
          w1 = (emit (EpochEnd epoch logs) w)
                 \<lparr>weights := (weights w)(model := x), clock := Suc (clock w)\<rparr>;
          h1 = append_logs h logs;
          (es1, stop) = early_stopping_on_epoch_end es (el_val_loss logs) x;
          w2 = save_weights model (checkpoint_path (Suc epoch)) w1
      in if stop then (h1, restore_best_weights es1 model (emit (EarlyStop epoch) w2))
         else fit_epochs left K model ds vds (Suc epoch) es1 h1 w2)"

definition fit ::
  "'w keras \<Rightarrow> model_ref \<Rightarrow> dataset \<Rightarrow> dataset \<Rightarrow> int \<Rightarrow> 'w world \<Rightarrow> history \<times> 'w world" where
  "fit K model ds vds epochs w =
     fit_epochs (nat epochs) K model ds vds 0 early_stopping_init empty_history
       (emit (Fit model ds vds epochs) w)"

subsection \<open>\<^verbatim>\<open>train_model\<close> (lines 115 to 156)\<close>

text \<open>A call whose value the caller drops, as in the statement \<^verbatim>\<open>test_model(model_path)\<close>.\<close>

definition discard :: "(exn + 'a) \<times> 'w world \<Rightarrow> (exn + unit) \<times> 'w world" where
  "discard r = (case r of (Inl exc, w) \<Rightarrow> (Inl exc, w) | (Inr _, w) \<Rightarrow> (Inr (), w))"

definition train_model ::
  "'w keras \<Rightarrow> string \<Rightarrow> int \<Rightarrow> int \<Rightarrow> bool \<Rightarrow> 'w world \<Rightarrow> (exn + history) \<times> 'w world" where
  "train_model K model_path epochs batch_size test w =
     (case load_model K model_path w of
        (Inl exc, w1) \<Rightarrow> (Inl exc, w1)
      | (Inr model, w1) \<Rightarrow>
          (let w2 = compile model w1;
               w3 = logging DEBUG ModelCompiled w2;
               (dataset, w4) = generate_dataset batch_size training_default w3;
               (validation_dataset, w5) = generate_dataset batch_size training_default w4;
               w6 = logging DEBUG DatasetLoaded w5;
               w7 = save_weights model (checkpoint_path 0) w6;
               (train_history, w8) = fit K model dataset validation_dataset epochs w7
           in case (if test then discard (test_model K model_path times_default w8)
                    else (Inr (), w8)) of
                (Inl exc, w9) \<Rightarrow> (Inl exc, w9)
              | (Inr _, w9) \<Rightarrow>
                  (let w10 = save model (str_replace ''h5'' ''keras'' model_path) w9;
                       w11 = logging DEBUG ModelSaved w10
                   in (Inr train_history, w11))))"

subsection \<open>\<^verbatim>\<open>plot_history\<close> and the driver (lines 160 to 191)\<close>

definition plot_history :: "history \<Rightarrow> 'w world \<Rightarrow> 'w world" where
  "plot_history h w =
     (let acc = h_accuracy h;
          epochs_range = length acc
      in emit (PlotShown epochs_range h) w)"

function main_loop :: "'w keras \<Rightarrow> int \<Rightarrow> 'w world \<Rightarrow> (exn + unit) \<times> 'w world" where
  "main_loop K batch w =
     (if batch > 1 then
        (case train_model K ''sortbot_alpha_new.h5'' 100 batch True w of
           (Inl exc, w1) \<Rightarrow> (Inl exc, w1)
         | (Inr history, w1) \<Rightarrow> main_loop K (batch div 2) (plot_history history w1))
      else (Inr (), w))"
  by pat_completeness auto
termination
  by (relation "measure (\<lambda>(K, batch, w). nat batch)") auto

declare main_loop.simps [simp del]

definition main :: "'w keras \<Rightarrow> 'w world \<Rightarrow> (exn + unit) \<times> 'w world" where
  "main K w = main_loop K 32 w"

section \<open>Observing a run\<close>

text \<open>The events a computation added, given the worlds before and after it.\<close>

definition new_events :: "'w world \<Rightarrow> 'w world \<Rightarrow> 'w event list" where
  "new_events w w' = drop (length (events w)) (events w')"

text \<open>The evaluations among some events: the object evaluated, its weights, the accuracy.\<close>

fun evaluation :: "'w event \<Rightarrow> (model_ref \<times> 'w \<times> real) list" where
  "evaluation (Evaluate m x ds a) = [(m, x, a)]"
| "evaluation e = []"

definition evaluations :: "'w event list \<Rightarrow> (model_ref \<times> 'w \<times> real) list" where
  "evaluations evs = concat (map evaluation evs)"

definition accuracies :: "'w event list \<Rightarrow> real list" where
  "accuracies evs = map (\<lambda>(m, x, a). a) (evaluations evs)"

text \<open>
  The running value of the spec: it starts at 0, and each new value \<open>v\<close> replaces the
  current one \<open>avg\<close> by \<open>(avg + v) / 2\<close>.
\<close>

definition blend :: "real list \<Rightarrow> real" where
  "blend accs = foldl (\<lambda>avg new_value. (avg + new_value) / 2) 0 accs"

text \<open>
  Further readings of a list of events: the calls of \<^verbatim>\<open>fit\<close> (object, training set,
  validation set, epochs), the paths weights were saved to, the models saved with their
  paths, and the epochs at which training was stopped early.
\<close>

fun fit_call :: "'w event \<Rightarrow> (model_ref \<times> dataset \<times> dataset \<times> int) list" where
  "fit_call (Fit m ds vds n) = [(m, ds, vds, n)]"
| "fit_call e = []"

definition fit_calls :: "'w event list \<Rightarrow> (model_ref \<times> dataset \<times> dataset \<times> int) list" where
  "fit_calls evs = concat (map fit_call evs)"

fun weights_path :: "'w event \<Rightarrow> string list" where
  "weights_path (SaveWeights m p) = [p]"
| "weights_path e = []"

definition weights_saved :: "'w event list \<Rightarrow> string list" where
  "weights_saved evs = concat (map weights_path evs)"

fun model_saved :: "'w event \<Rightarrow> (model_ref \<times> string) list" where
  "model_saved (Save m p) = [(m, p)]"
| "model_saved e = []"

definition models_saved :: "'w event list \<Rightarrow> (model_ref \<times> string) list" where
  "models_saved evs = concat (map model_saved evs)"

fun early_stop :: "'w event \<Rightarrow> nat list" where
  "early_stop (EarlyStop n) = [n]"
| "early_stop e = []"

definition early_stops :: "'w event list \<Rightarrow> nat list" where
  "early_stops evs = concat (map early_stop evs)"


text \<open>Whether \<open>old\<close> occurs in a string, and the number a string of digits denotes.\<close>

fun occurs :: "string \<Rightarrow> string \<Rightarrow> bool" where
  "occurs old [] = (old = [])"
| "occurs old (c # cs) = (take (length old) (c # cs) = old \<or> occurs old cs)"


text \<open>
  The driver as the spec describes it: full training, then plotting, once for each batch
  size of a given list, in order; an exception ends it.
\<close>

fun run_batches :: "'w keras \<Rightarrow> int list \<Rightarrow> 'w world \<Rightarrow> (exn + unit) \<times> 'w world" where
  "run_batches K [] w = (Inr (), w)"
| "run_batches K (batch # rest) w =
     (case train_model K ''sortbot_alpha_new.h5'' 100 batch True w of
        (Inl exc, w1) \<Rightarrow> (Inl exc, w1)
      | (Inr history, w1) \<Rightarrow> run_batches K rest (plot_history history w1))"

section \<open>A concrete framework and world\<close>

text \<open>
  One instance of the parameters, on which the theorems below are run: weights are a
  counter of the epochs trained, the deserialiser raises \<^verbatim>\<open>FileNotFoundError\<close> for a path
  with no file and \<^verbatim>\<open>ValueError\<close> for a file that holds weights only, and the accuracy
  of an evaluation grows with the number of epochs trained.
\<close>

definition demo_keras :: "nat keras" where
  "demo_keras =
     \<lparr>k_load_model = (\<lambda>files p. case files p of
          None \<Rightarrow> Inl (Exn FileNotFoundError ''No such file'')
        | Some (WeightsFile x) \<Rightarrow> Inl (Exn ValueError ''No model config'')
        | Some (ModelFile ls x) \<Rightarrow> Inr (ls, x)),
      k_train_epoch = (\<lambda>t ls x ds vds epoch.
          (Suc x, \<lparr>el_accuracy = 1 / 2, el_val_accuracy = 1 / 2,
                   el_loss = 1 / (1 + real epoch), el_val_loss = 1 / (1 + real epoch)\<rparr>)),
      k_evaluate = (\<lambda>t ls x ds. (0, real x / (1 + real x)))\<rparr>"

definition demo_world :: "nat world" where
  "demo_world =
     \<lparr>weights = (\<lambda>m. 0), loaded_layers = (\<lambda>n. []), next_id = 0, fs = Map.empty,
      rand_source = (\<lambda>n. 7 * n + 5), rand_pos = 0, clock = 0, events = []\<rparr>"

text \<open>
  A second instance, which for a path with no file decides as the deserialiser of Keras 3
  does: by the suffix of the path. For a path ending in \<^verbatim>\<open>.h5\<close> or \<^verbatim>\<open>.hdf5\<close> the HDF5
  reader is tried and fails to open the file, a \<^verbatim>\<open>FileNotFoundError\<close>; for any other path no
  supported format is recognised, and the deserialiser raises a \<^verbatim>\<open>ValueError\<close>. The
  deserialiser is the framework's and not part of the sources; \<open>endswith\<close> is
  \<^verbatim>\<open>str.endswith\<close>.
\<close>

definition endswith :: "string \<Rightarrow> string \<Rightarrow> bool" where
  "endswith s suffix =
     (length suffix \<le> length s \<and> drop (length s - length suffix) s = suffix)"

definition suffix_keras :: "nat keras" where
  "suffix_keras =
     demo_keras\<lparr>k_load_model := (\<lambda>files p. case files p of
          None \<Rightarrow>
            if endswith p ''.h5'' \<or> endswith p ''.hdf5''
            then Inl (Exn FileNotFoundError ''Unable to open file'')
            else Inl (Exn ValueError ''File not found'')
        | Some (WeightsFile x) \<Rightarrow> Inl (Exn ValueError ''No model config'')
        | Some (ModelFile ls x) \<Rightarrow> Inr (ls, x))\<rparr>"

text \<open>
  Two runs of \<^verbatim>\<open>train_model("sortbot_alpha_new.h5", epochs=2, batch_size=32, test=True)\<close>
  on the first framework, with what they are expected to do, event by event. In
  \<open>demo_run\<close> no file exists, so both calls of \<^verbatim>\<open>load_model\<close> fall back; in
  \<open>demo_run_saved\<close> a saved model with weights 5 is at the path, so both calls
  deserialise it.
\<close>

definition demo_run :: "(exn + history) \<times> nat world" where
  "demo_run = train_model demo_keras ''sortbot_alpha_new.h5'' 2 32 True demo_world"

definition demo_dataset :: "string \<Rightarrow> int \<Rightarrow> int \<Rightarrow> dataset" where
  "demo_dataset dir seed batch_size =
     \<lparr>ds_dir = dir, ds_seed = seed, ds_image_size = (256, 256), ds_batch_size = batch_size\<rparr>"

definition demo_history :: history where
  "demo_history =
     \<lparr>h_accuracy = [1 / 2, 1 / 2], h_val_accuracy = [1 / 2, 1 / 2],
      h_loss = [1, 1 / 2], h_val_loss = [1, 1 / 2]\<rparr>"

definition demo_events :: "nat event list" where
  "demo_events =
     [CallLoadModel ''sortbot_alpha_new.h5'',
      Logged ERROR (ErrorLoadingModel ''No such file''),
      Summary NewModel,
      Compile NewModel,
      Logged DEBUG ModelCompiled,
      ImageDatasetFromDirectory (demo_dataset ''./dataset-resized/'' 65541 32),
      ImageDatasetFromDirectory (demo_dataset ''./dataset-resized/'' 65548 32),
      Logged DEBUG DatasetLoaded,
      SaveWeights NewModel ''./training/cp-0000.weights.h5'',
      Fit NewModel (demo_dataset ''./dataset-resized/'' 65541 32)
        (demo_dataset ''./dataset-resized/'' 65548 32) 2,
      EpochEnd 0 \<lparr>el_accuracy = 1 / 2, el_val_accuracy = 1 / 2, el_loss = 1, el_val_loss = 1\<rparr>,
      SaveWeights NewModel ''./training/cp-0001.weights.h5'',
      EpochEnd 1 \<lparr>el_accuracy = 1 / 2, el_val_accuracy = 1 / 2,
                  el_loss = 1 / 2, el_val_loss = 1 / 2\<rparr>,
      SaveWeights NewModel ''./training/cp-0002.weights.h5'',
      CallLoadModel ''sortbot_alpha_new.h5'',
      Logged ERROR (ErrorLoadingModel ''No such file''),
      Summary NewModel,
      Compile NewModel,
      Logged DEBUG ModelCompiled,
      ImageDatasetFromDirectory (demo_dataset ''./dataset-resized/val'' 65555 256)]
     @ replicate 10 (Evaluate NewModel 2 (demo_dataset ''./dataset-resized/val'' 65555 256) (2 / 3))
     @ [Printed (AverageAccuracy (341 / 512)),
        Logged INFO (Tested 10 (341 / 512)),
        Save NewModel ''sortbot_alpha_new.keras'',
        Logged DEBUG ModelSaved]"




section \<open>Properties\<close>

subsection \<open>Loading a model\<close>

lemma load_model_caught:
  "k_load_model K (fs w) p = Inl exc \<Longrightarrow> exc_cls exc = FileNotFoundError \<Longrightarrow>
   load_model K p w =
     (Inr NewModel,
      summary NewModel (logging ERROR (ErrorLoadingModel (exc_msg exc)) (emit (CallLoadModel p) w)))"
  by (simp add: load_model_def isinstance_def py_or_def class_truthy_def Let_def)

lemma load_model_uncaught:
  "k_load_model K (fs w) p = Inl exc \<Longrightarrow> exc_cls exc \<noteq> FileNotFoundError \<Longrightarrow>
   load_model K p w = (Inl exc, emit (CallLoadModel p) w)"
  by (simp add: load_model_def isinstance_def py_or_def class_truthy_def Let_def)

lemma load_model_loaded:
  "k_load_model K (fs w) p = Inr (ls, x) \<Longrightarrow>
   load_model K p w =
     (Inr (Loaded (next_id w)),
      summary (Loaded (next_id w)) (snd (new_object ls x (emit (CallLoadModel p) w))))"
  by (simp add: load_model_def Let_def new_object_def emit_def)

lemma output_width_new_model: "output_width new_model_layers = Some 8"
  by (simp add: output_width_def new_model_layers_def)

text \<open>
  When the deserialiser raises a \<^verbatim>\<open>FileNotFoundError\<close>, \<^verbatim>\<open>load_model\<close> does not raise: it
  returns the module's default model object, whose last layer is dense of width 8, and
  what it did is, in order, the call of the deserialiser, one log record of level
  \<^verbatim>\<open>ERROR\<close> carrying the text of the exception, and the printed summary.
\<close>

lemma load_model_falls_back:
  assumes "k_load_model K (fs w) model_path = Inl (Exn FileNotFoundError msg)"
  shows "\<exists>w'. load_model K model_path w = (Inr NewModel, w')
            \<and> events w' = events w @ [CallLoadModel model_path,
                                       Logged ERROR (ErrorLoadingModel msg),
                                       Summary NewModel]
            \<and> output_width (layers_of w' NewModel) = Some 8"
  using assms
  by (simp add: load_model_caught summary_def logging_def emit_def output_width_new_model)

lemma load_model_falls_back_demo:
  "k_load_model demo_keras (fs demo_world) ''missing.h5''
     = Inl (Exn FileNotFoundError ''No such file'')
   \<and> (\<exists>w'. load_model demo_keras ''missing.h5'' demo_world = (Inr NewModel, w')
            \<and> events w' = events demo_world @ [CallLoadModel ''missing.h5'',
                                       Logged ERROR (ErrorLoadingModel ''No such file''),
                                       Summary NewModel]
            \<and> output_width (layers_of w' NewModel) = Some 8)"
proof -
  have h: "k_load_model demo_keras (fs demo_world) ''missing.h5''
             = Inl (Exn FileNotFoundError ''No such file'')"
    by (simp add: demo_keras_def demo_world_def)
  show ?thesis using h load_model_falls_back [OF h] by simp
qed

text \<open>
  Claim C1 promises the fallback for every path at which no file exists: the default
  architecture is returned, an error is logged and nothing is raised. The docstring of
  \<^verbatim>\<open>load_model\<close> says the same (load the model from the file if it exists, otherwise
  return a new model), and the handler names both \<^verbatim>\<open>FileNotFoundError\<close> and
  \<^verbatim>\<open>ValueError\<close>. The code does not do it. Which exception a missing file gives is the
  deserialiser's choice, and the handler catches \<^verbatim>\<open>FileNotFoundError\<close> only: with a
  deserialiser that decides by the suffix, no file exists at \<^verbatim>\<open>missing.keras\<close>, and
  \<^verbatim>\<open>load_model("missing.keras")\<close> raises the \<^verbatim>\<open>ValueError\<close>; the call of the deserialiser
  is all that happened, nothing is logged and no model is returned. At \<^verbatim>\<open>missing.h5\<close>,
  where the same deserialiser raises \<^verbatim>\<open>FileNotFoundError\<close>, the default model is returned.
\<close>

theorem load_model_missing_path_raises:
  "fs demo_world ''missing.keras'' = None
   \<and> fst (load_model suffix_keras ''missing.keras'' demo_world)
       = Inl (Exn ValueError ''File not found'')
   \<and> events (snd (load_model suffix_keras ''missing.keras'' demo_world))
       = [CallLoadModel ''missing.keras'']
   \<and> fst (load_model suffix_keras ''missing.h5'' demo_world) = Inr NewModel"
  by (simp add: load_model_def suffix_keras_def endswith_def demo_keras_def demo_world_def isinstance_def
      py_or_def class_truthy_def emit_def logging_def summary_def Let_def)

text \<open>
  Claim C6. The handler \<^verbatim>\<open>except FileNotFoundError or ValueError\<close> catches one kind of
  exception only. Whatever the deserialiser raises: if it is a \<^verbatim>\<open>FileNotFoundError\<close>, the
  fallback is taken (default model, error logged, summary printed); if it is anything
  else, a \<^verbatim>\<open>ValueError\<close> in particular, the same exception leaves \<^verbatim>\<open>load_model\<close>, and
  nothing is logged.
\<close>

theorem load_model_exception_filter:
  assumes "k_load_model K (fs w) model_path = Inl exc"
  shows "load_model K model_path w =
           (if exc_cls exc = FileNotFoundError
            then (Inr NewModel,
                  summary NewModel
                    (logging ERROR (ErrorLoadingModel (exc_msg exc))
                       (emit (CallLoadModel model_path) w)))
            else (Inl exc, emit (CallLoadModel model_path) w))"
  using assms by (simp add: load_model_caught load_model_uncaught)

subsection \<open>Building a dataset\<close>

text \<open>
  Claim C4. For every batch size, \<^verbatim>\<open>generate_dataset\<close> with \<^verbatim>\<open>training=False\<close> builds
  its dataset from the directory \<^verbatim>\<open>./dataset-resized/val\<close>, and with \<^verbatim>\<open>training=True\<close>,
  which is the default, from \<^verbatim>\<open>./dataset-resized/\<close>; the dataset returned is the one the
  call to the framework's builder was made for.
\<close>

theorem generate_dataset_directory:
  "ds_dir (fst (generate_dataset batch_size False w)) = ''./dataset-resized/val''
   \<and> ds_dir (fst (generate_dataset batch_size True w)) = ''./dataset-resized/''
   \<and> ds_dir (fst (generate_dataset batch_size training_default w)) = ''./dataset-resized/''
   \<and> events (snd (generate_dataset batch_size training w)) =
          events w @ [ImageDatasetFromDirectory (fst (generate_dataset batch_size training w))]"
  by (simp add: generate_dataset_def image_dataset_from_directory_def randint_def
      training_default_def emit_def Let_def)

lemma randint_range:
  assumes ab: "a \<le> b" and r: "randint a b w = (s, w')"
  shows "a \<le> s \<and> s \<le> b"
proof -
  have "0 < nat (b - a + 1)" using ab by simp
  then have "rand_source w (rand_pos w) mod nat (b - a + 1) < nat (b - a + 1)"
    by (rule mod_less_divisor)
  then have "int (rand_source w (rand_pos w) mod nat (b - a + 1)) < int (nat (b - a + 1))"
    by (simp only: of_nat_less_iff)
  then have "int (rand_source w (rand_pos w) mod nat (b - a + 1)) \<le> b - a"
    using ab by simp
  moreover have "s = a + int (rand_source w (rand_pos w) mod nat (b - a + 1))"
    using r by (simp add: randint_def)
  ultimately show ?thesis by simp
qed

text \<open>
  Claim C10. In every call of \<^verbatim>\<open>generate_dataset\<close> the seed handed to the dataset
  builder is an integer of the closed range from \<open>2 ^ 16\<close> to \<open>2 ^ 32 - 1\<close>; so it is at
  least 65536.
\<close>

theorem generate_dataset_seed_range:
  "2 ^ 16 \<le> ds_seed (fst (generate_dataset batch_size training w))
   \<and> ds_seed (fst (generate_dataset batch_size training w)) \<le> 2 ^ 32 - 1
   \<and> 65536 \<le> ds_seed (fst (generate_dataset batch_size training w))
   \<and> events (snd (generate_dataset batch_size training w)) =
       events w @ [ImageDatasetFromDirectory (fst (generate_dataset batch_size training w))]"
proof -
  obtain s w1 where r: "randint (2 ^ 16) (2 ^ 32 - 1) w = (s, w1)"
    by (cases "randint (2 ^ 16) (2 ^ 32 - 1) w") auto
  have le: "(2::int) ^ 16 \<le> 2 ^ 32 - 1" by simp
  have range: "2 ^ 16 \<le> s \<and> s \<le> 2 ^ 32 - 1"
    by (rule randint_range [OF le r])
  have ev: "events w1 = events w"
    using r by (auto simp: randint_def)
  show ?thesis
    using range ev r
    by (simp add: generate_dataset_def image_dataset_from_directory_def emit_def Let_def)
qed

subsection \<open>Testing a model\<close>

lemma evaluations_append [simp]: "evaluations (a @ b) = evaluations a @ evaluations b"
  by (simp add: evaluations_def)

lemma evaluations_Nil [simp]: "evaluations [] = []"
  by (simp add: evaluations_def)

lemma evaluations_Cons [simp]: "evaluations (e # es) = evaluation e @ evaluations es"
  by (simp add: evaluations_def)

lemma evaluations_map_Evaluate [simp]:
  "evaluations (map (\<lambda>a. Evaluate m x d a) accs) = map (\<lambda>a. (m, x, a)) accs"
  by (induction accs) simp_all

lemma new_events_append [simp]: "events w' = events w @ evs \<Longrightarrow> new_events w w' = evs"
  by (simp add: new_events_def)

lemma load_model_cases:
  assumes "load_model K p w = (r, w1)"
  shows "(\<exists>exc. k_load_model K (fs w) p = Inl exc \<and> exc_cls exc \<noteq> FileNotFoundError
            \<and> r = Inl exc \<and> w1 = w\<lparr>events := events w @ [CallLoadModel p]\<rparr>)
       \<or> (\<exists>exc. k_load_model K (fs w) p = Inl exc \<and> exc_cls exc = FileNotFoundError
            \<and> r = Inr NewModel
            \<and> w1 = w\<lparr>events := events w @ [CallLoadModel p,
                         Logged ERROR (ErrorLoadingModel (exc_msg exc)), Summary NewModel]\<rparr>)
       \<or> (\<exists>ls x. k_load_model K (fs w) p = Inr (ls, x)
            \<and> r = Inr (Loaded (next_id w))
            \<and> w1 = w\<lparr>weights := (weights w)(Loaded (next_id w) := x),
                      loaded_layers := (loaded_layers w)(next_id w := ls),
                      next_id := Suc (next_id w),
                      events := events w @ [CallLoadModel p, Summary (Loaded (next_id w))]\<rparr>)"
proof (cases "k_load_model K (fs w) p")
  case (Inl exc)
  show ?thesis
  proof (cases "exc_cls exc = FileNotFoundError")
    case True
    with Inl assms show ?thesis
      by (simp add: load_model_caught summary_def logging_def emit_def)
  next
    case False
    with Inl assms show ?thesis
      by (simp add: load_model_uncaught emit_def)
  qed
next
  case (Inr b)
  obtain ls x where "b = (ls, x)" by (cases b)
  with Inr assms show ?thesis
    by (simp add: load_model_loaded summary_def new_object_def emit_def)
qed

lemma evaluate_loop_run:
  "evaluate_loop n K m d avg w = (r, w') \<Longrightarrow>
   \<exists>accs. length accs = n
      \<and> events w' = events w @ map (\<lambda>a. Evaluate m (weights w m) d a) accs
      \<and> r = foldl (\<lambda>avg new_value. (avg + new_value) / 2) avg accs
      \<and> weights w' = weights w \<and> fs w' = fs w \<and> next_id w' = next_id w
      \<and> loaded_layers w' = loaded_layers w"
proof (induction n arbitrary: avg w)
  case 0
  then show ?case by simp
next
  case (Suc n)
  obtain l a w1 where ev: "evaluate K m d w = ((l, a), w1)"
    by (cases "evaluate K m d w") auto
  then have w1: "w1 = (emit (Evaluate m (weights w m) d a) w)\<lparr>clock := Suc (clock w)\<rparr>"
    by (auto simp: evaluate_def Let_def split: prod.splits)
  from Suc.prems ev have "evaluate_loop n K m d ((avg + a) / 2) w1 = (r, w')"
    by simp
  from Suc.IH [OF this] obtain accs where
    IH: "length accs = n"
      "events w' = events w1 @ map (\<lambda>a. Evaluate m (weights w1 m) d a) accs"
      "r = foldl (\<lambda>avg new_value. (avg + new_value) / 2) ((avg + a) / 2) accs"
      "weights w' = weights w1" "fs w' = fs w1" "next_id w' = next_id w1"
      "loaded_layers w' = loaded_layers w1"
    by blast
  show ?case
    by (rule exI [of _ "a # accs"]) (use IH w1 in \<open>simp add: emit_def\<close>)
qed

lemma test_model_run:
  assumes "test_model K p n w = (Inr r, w')"
  shows "\<exists>m w1 d accs. load_model K p w = (Inr m, w1)
      \<and> length accs = nat n
      \<and> events w' = events w1 @ [Compile m, Logged DEBUG ModelCompiled,
                                  ImageDatasetFromDirectory d]
                      @ map (\<lambda>a. Evaluate m (weights w1 m) d a) accs
                      @ [Printed (AverageAccuracy r), Logged INFO (Tested n r)]
      \<and> r = blend accs
      \<and> ds_dir d = ''./dataset-resized/val'' \<and> ds_batch_size d = 256
      \<and> weights w' = weights w1 \<and> fs w' = fs w1 \<and> next_id w' = next_id w1
      \<and> loaded_layers w' = loaded_layers w1"
proof -
  obtain r1 w1 where l: "load_model K p w = (r1, w1)"
    by (cases "load_model K p w") auto
  with assms obtain m where r1: "r1 = Inr m"
    by (cases r1) (auto simp: test_model_def)
  define w3 where "w3 = logging DEBUG ModelCompiled (compile m w1)"
  obtain d w4 where g: "generate_dataset 256 False w3 = (d, w4)"
    by (cases "generate_dataset 256 False w3") auto
  obtain r5 w5 where e: "evaluate_loop (nat n) K m d 0 w4 = (r5, w5)"
    by (cases "evaluate_loop (nat n) K m d 0 w4") auto
  from assms l r1 g e have res: "r = r5"
    and w': "w' = logging INFO (Tested n r5) (py_print (AverageAccuracy r5) w5)"
    by (auto simp: test_model_def w3_def)
  from g have d: "ds_dir d = ''./dataset-resized/val''" "ds_batch_size d = 256"
    and w4: "events w4 = events w3 @ [ImageDatasetFromDirectory d]"
      "weights w4 = weights w3" "fs w4 = fs w3" "next_id w4 = next_id w3"
      "loaded_layers w4 = loaded_layers w3"
    by (auto simp: generate_dataset_def image_dataset_from_directory_def randint_def
        emit_def Let_def)
  have w3: "events w3 = events w1 @ [Compile m, Logged DEBUG ModelCompiled]"
      "weights w3 = weights w1" "fs w3 = fs w1" "next_id w3 = next_id w1"
      "loaded_layers w3 = loaded_layers w1"
    by (simp_all add: w3_def logging_def compile_def emit_def)
  from evaluate_loop_run [OF e] obtain accs where
    accs: "length accs = nat n"
      "events w5 = events w4 @ map (\<lambda>a. Evaluate m (weights w4 m) d a) accs"
      "r5 = foldl (\<lambda>avg new_value. (avg + new_value) / 2) 0 accs"
      "weights w5 = weights w4" "fs w5 = fs w4" "next_id w5 = next_id w4"
      "loaded_layers w5 = loaded_layers w4"
    by blast
  show ?thesis
    apply (rule exI [of _ m], rule exI [of _ w1], rule exI [of _ d], rule exI [of _ accs])
    using l r1 res w' d w4 w3 accs
    by (simp add: blend_def logging_def py_print_def emit_def)
qed

lemma blend_replicate:
  "foldl (\<lambda>avg new_value. (avg + new_value) / 2) (v::real) (replicate n a) = a + (v - a) / 2 ^ n"
proof (induction n arbitrary: v)
  case 0
  then show ?case by simp
next
  case (Suc n)
  show ?case by (simp add: Suc.IH field_simps)
qed

lemma blend_snoc: "blend (accs @ [a]) = (blend accs + a) / 2"
  by (simp add: blend_def)

text \<open>
  Claim C2. In a call of \<^verbatim>\<open>test_model\<close> that returns, the model is evaluated exactly
  \<^verbatim>\<open>times\<close> times (10 by default), and the value returned is the running value of the
  accuracies these evaluations gave, in order: it starts at 0 and each evaluation replaces
  it by the half of its sum with the new accuracy. So after exactly one evaluation of
  accuracy \<open>a\<close> it is \<open>a / 2\<close>; and were every one of \<open>n\<close> evaluations to give the same
  \<open>a\<close>, it would be \<open>a - a / 2 ^ n\<close> where the arithmetic mean is \<open>a\<close>. Accuracies are
  real numbers here; the halving of one accuracy is exact in binary floating point too.
\<close>

theorem test_model_running_value:
  assumes "test_model K model_path ntimes w = (Inr avg_acc, w')"
  shows "length (accuracies (new_events w w')) = nat ntimes
       \<and> avg_acc = blend (accuracies (new_events w w'))
       \<and> blend [] = 0
       \<and> (\<forall>accs a. blend (accs @ [a]) = (blend accs + a) / 2)
       \<and> (ntimes = 1 \<longrightarrow> (\<exists>a. accuracies (new_events w w') = [a] \<and> avg_acc = a / 2))
       \<and> (\<forall>n a. blend (replicate n a) = a - a / 2 ^ n)
       \<and> times_default = 10"
proof -
  from test_model_run [OF assms] obtain m w1 d accs where
    run: "load_model K model_path w = (Inr m, w1)" "length accs = nat ntimes"
      "events w' = events w1 @ [Compile m, Logged DEBUG ModelCompiled,
                                  ImageDatasetFromDirectory d]
                      @ map (\<lambda>a. Evaluate m (weights w1 m) d a) accs
                      @ [Printed (AverageAccuracy avg_acc), Logged INFO (Tested ntimes avg_acc)]"
      "avg_acc = blend accs"
    by blast
  from load_model_cases [OF run(1)] obtain evs where
    evs: "events w1 = events w @ evs" "evaluations evs = []"
    by auto
  have "new_events w w' = evs @ [Compile m, Logged DEBUG ModelCompiled,
                                  ImageDatasetFromDirectory d]
                      @ map (\<lambda>a. Evaluate m (weights w1 m) d a) accs
                      @ [Printed (AverageAccuracy avg_acc), Logged INFO (Tested ntimes avg_acc)]"
    by (rule new_events_append) (simp add: run(3) evs(1))
  then have acc: "accuracies (new_events w w') = accs"
    by (simp add: accuracies_def evs(2) comp_def)
  have one: "ntimes = 1 \<longrightarrow> (\<exists>a. accs = [a] \<and> avg_acc = a / 2)"
  proof
    assume "ntimes = 1"
    with run(2) have "length accs = 1" by simp
    then obtain a where "accs = [a]" by (cases accs) auto
    with run(4) show "\<exists>a. accs = [a] \<and> avg_acc = a / 2" by (simp add: blend_def)
  qed
  show ?thesis
    using acc run(2,4) one
    by (simp add: blend_snoc times_default_def) (simp add: blend_def blend_replicate)
qed


theorem test_model_running_value_witness:
  "fst (test_model demo_keras ''missing.h5'' 1 (demo_world\<lparr>weights := (\<lambda>m. 3)\<rparr>)) = Inr (3 / 8)
   \<and> accuracies (new_events (demo_world\<lparr>weights := (\<lambda>m. 3)\<rparr>)
        (snd (test_model demo_keras ''missing.h5'' 1 (demo_world\<lparr>weights := (\<lambda>m. 3)\<rparr>))))
       = [3 / 4]"
proof -
  define W where "W = demo_world\<lparr>weights := (\<lambda>m. 3)\<rparr>"
  have r: "fst (test_model demo_keras ''missing.h5'' 1 W) = Inr (3 / 8)"
    by (simp add: W_def test_model_def load_model_def demo_keras_def demo_world_def
        isinstance_def py_or_def class_truthy_def generate_dataset_def
        image_dataset_from_directory_def randint_def evaluate_def compile_def logging_def
        py_print_def summary_def emit_def Let_def)
  then have "test_model demo_keras ''missing.h5'' 1 W
               = (Inr (3 / 8), snd (test_model demo_keras ''missing.h5'' 1 W))"
    by (simp add: prod_eq_iff)
  from test_model_running_value [OF this] r
  have "\<exists>a. accuracies (new_events W (snd (test_model demo_keras ''missing.h5'' 1 W))) = [a]
          \<and> (3 / 8 :: real) = a / 2"
    by simp
  then obtain a where a: "accuracies (new_events W (snd (test_model demo_keras ''missing.h5'' 1 W))) = [a]"
    and "(3 / 8 :: real) = a / 2"
    by blast
  then have "a = 3 / 4" by simp
  with a r show ?thesis by (simp add: W_def)
qed

theorem load_model_exception_filter_witness:
  "k_load_model demo_keras (fs demo_world) ''missing.h5''
     = Inl (Exn FileNotFoundError ''No such file'')
   \<and> fst (load_model demo_keras ''missing.h5'' demo_world) = Inr NewModel
   \<and> k_load_model demo_keras (fs (save_weights NewModel ''cp.weights.h5'' demo_world))
       ''cp.weights.h5'' = Inl (Exn ValueError ''No model config'')
   \<and> fst (load_model demo_keras ''cp.weights.h5''
            (save_weights NewModel ''cp.weights.h5'' demo_world))
       = Inl (Exn ValueError ''No model config'')"
proof -
  have a: "k_load_model demo_keras (fs demo_world) ''missing.h5''
             = Inl (Exn FileNotFoundError ''No such file'')"
    by (simp add: demo_keras_def demo_world_def)
  have b: "k_load_model demo_keras (fs (save_weights NewModel ''cp.weights.h5'' demo_world))
             ''cp.weights.h5'' = Inl (Exn ValueError ''No model config'')"
    by (simp add: demo_keras_def demo_world_def save_weights_def emit_def)
  show ?thesis
    using a b load_model_exception_filter [OF a] load_model_exception_filter [OF b]
    by simp
qed

subsection \<open>The driver\<close>

lemma main_loop_step:
  "1 < batch \<Longrightarrow>
   main_loop K batch w =
     (case train_model K ''sortbot_alpha_new.h5'' 100 batch True w of
        (Inl exc, w1) \<Rightarrow> (Inl exc, w1)
      | (Inr history, w1) \<Rightarrow> main_loop K (batch div 2) (plot_history history w1))"
  by (subst main_loop.simps) simp

lemma main_loop_stop: "batch \<le> 1 \<Longrightarrow> main_loop K batch w = (Inr (), w)"
  by (subst main_loop.simps) simp

lemma main_loop_halves:
  "1 < batch \<Longrightarrow> (\<And>w. main_loop K (batch div 2) w = run_batches K rest w) \<Longrightarrow>
   main_loop K batch w = run_batches K (batch # rest) w"
  by (simp add: main_loop_step split: prod.splits sum.splits)

text \<open>
  Claim C5. The driver, started at batch size 32 and halving, is the same computation as
  training and then plotting at the batch sizes 32, 16, 8, 4, 2, in this order, and
  nothing more: it ends when the batch size has dropped to 1 (or, as the script handles
  nothing, at the first exception that leaves \<^verbatim>\<open>train_model\<close>).
\<close>

theorem main_batch_sizes: "main K w = run_batches K [32, 16, 8, 4, 2] w"
proof -
  have l1: "main_loop K 1 w = run_batches K [] w" for w
    by (simp add: main_loop_stop)
  have l2: "main_loop K 2 w = run_batches K [2] w" for w
    by (rule main_loop_halves) (simp_all add: l1)
  have l4: "main_loop K 4 w = run_batches K [4, 2] w" for w
    by (rule main_loop_halves) (simp_all add: l2)
  have l8: "main_loop K 8 w = run_batches K [8, 4, 2] w" for w
    by (rule main_loop_halves) (simp_all add: l4)
  have l16: "main_loop K 16 w = run_batches K [16, 8, 4, 2] w" for w
    by (rule main_loop_halves) (simp_all add: l8)
  have l32: "main_loop K 32 w = run_batches K [32, 16, 8, 4, 2] w" for w
    by (rule main_loop_halves) (simp_all add: l16)
  show ?thesis by (simp add: main_def l32)
qed

subsection \<open>Paths, and the fit loop\<close>

lemma fit_calls_simps [simp]:
  "fit_calls [] = []" "fit_calls (e # evs) = fit_call e @ fit_calls evs"
  "fit_calls (a @ b) = fit_calls a @ fit_calls b"
  by (simp_all add: fit_calls_def)

lemma weights_saved_simps [simp]:
  "weights_saved [] = []" "weights_saved (e # evs) = weights_path e @ weights_saved evs"
  "weights_saved (a @ b) = weights_saved a @ weights_saved b"
  by (simp_all add: weights_saved_def)

lemma models_saved_simps [simp]:
  "models_saved [] = []" "models_saved (e # evs) = model_saved e @ models_saved evs"
  "models_saved (a @ b) = models_saved a @ models_saved b"
  by (simp_all add: models_saved_def)

lemma early_stops_simps [simp]:
  "early_stops [] = []" "early_stops (e # evs) = early_stop e @ early_stops evs"
  "early_stops (a @ b) = early_stops a @ early_stops b"
  by (simp_all add: early_stops_def)


lemma replicate_numeral: "replicate (numeral k) x = x # replicate (pred_numeral k) x"
  by (simp add: numeral_eq_Suc)








lemma str_replace_starts_5:
  "str_replace ''h5'' ''keras'' u = CHR ''5'' # t \<Longrightarrow> \<exists>v. u = CHR ''5'' # v"
  by (subst (asm) str_replace.simps) (auto split: if_splits simp: neq_Nil_conv)

lemma str_replace_no_h5: "\<not> occurs ''h5'' (str_replace ''h5'' ''keras'' s)"
proof (induction "''h5''" "''keras''" s rule: str_replace.induct)
  case (1 s)
  show ?case
  proof (cases "s = []")
    case True
    then show ?thesis by (subst str_replace.simps) simp
  next
    case ne: False
    show ?thesis
    proof (cases "take (length ''h5'') s = ''h5''")
      case True
      with ne 1(1) have "\<not> occurs ''h5'' (str_replace ''h5'' ''keras'' (drop (length ''h5'') s))"
        by simp
      with ne True show ?thesis
        by (subst str_replace.simps) (simp add: take_Suc_conv_app_nth)
    next
      case False
      with ne 1(2) have IH: "\<not> occurs ''h5'' (str_replace ''h5'' ''keras'' (tl s))"
        by simp
      obtain c u where s: "s = c # u" using ne by (cases s) auto
      have "take 2 (c # str_replace ''h5'' ''keras'' u) \<noteq> ''h5''"
      proof
        assume a: "take 2 (c # str_replace ''h5'' ''keras'' u) = ''h5''"
        then obtain t where c: "c = CHR ''h''" and "str_replace ''h5'' ''keras'' u = CHR ''5'' # t"
          by (cases "str_replace ''h5'' ''keras'' u") simp_all
        then obtain v where "u = CHR ''5'' # v"
          using str_replace_starts_5 by blast
        with c s have "take 2 s = ''h5''" by simp
        with False show False by (simp add: numeral_2_eq_2)
      qed
      with IH s False show ?thesis
        by (subst str_replace.simps) auto
    qed
  qed
qed


lemma str_replace_example:
  "str_replace ''h5'' ''keras'' ''h5_runs/model.h5'' = ''keras_runs/model.keras''"
  by (simp add: str_replace.simps)

lemma checkpoint_path_7: "checkpoint_path 7 = ''./training/cp-0007.weights.h5''"
  by (simp add: checkpoint_path_def zero_pad_def decimal.simps digit_char_def replicate_numeral)

lemma checkpoint_path_12345: "checkpoint_path 12345 = ''./training/cp-12345.weights.h5''"
  by (simp add: checkpoint_path_def zero_pad_def decimal.simps digit_char_def)

lemma fit_epochs_run:
  "fit_epochs left K m ds vds epoch es h w = (h', w') \<Longrightarrow>
   \<exists>k evs. k \<le> left
     \<and> events w' = events w @ evs
     \<and> weights_saved evs = map checkpoint_path [Suc epoch ..< Suc epoch + k]
     \<and> evaluations evs = [] \<and> fit_calls evs = [] \<and> models_saved evs = []
     \<and> (early_stops evs = [] \<longrightarrow> k = left)
     \<and> length (h_loss h') = length (h_loss h) + k
     \<and> dom (fs w') = dom (fs w) \<union> checkpoint_path ` {Suc epoch ..< Suc epoch + k}
     \<and> next_id w' = next_id w \<and> loaded_layers w' = loaded_layers w
     \<and> (\<forall>m'. m' \<noteq> m \<longrightarrow> weights w' m' = weights w m')"
proof (induction left arbitrary: epoch es h w)
  case 0
  then show ?case
    by (intro exI [of _ 0] exI [of _ "[]"]) simp
next
  case (Suc left)
  obtain x logs where
    t: "k_train_epoch K (clock w) (layers_of w m) (weights w m) ds vds epoch = (x, logs)"
    by (cases "k_train_epoch K (clock w) (layers_of w m) (weights w m) ds vds epoch") auto
  obtain es1 stop where e: "early_stopping_on_epoch_end es (el_val_loss logs) x = (es1, stop)"
    by (cases "early_stopping_on_epoch_end es (el_val_loss logs) x") auto
  define w2 where "w2 = save_weights m (checkpoint_path (Suc epoch))
     ((emit (EpochEnd epoch logs) w)\<lparr>weights := (weights w)(m := x), clock := Suc (clock w)\<rparr>)"
  have w2: "events w2 = events w @ [EpochEnd epoch logs, SaveWeights m (checkpoint_path (Suc epoch))]"
    "next_id w2 = next_id w" "loaded_layers w2 = loaded_layers w"
    "\<forall>m'. m' \<noteq> m \<longrightarrow> weights w2 m' = weights w m'"
    "dom (fs w2) = insert (checkpoint_path (Suc epoch)) (dom (fs w))"
    by (simp_all add: w2_def save_weights_def emit_def)
  from Suc.prems t e have step:
    "(if stop then (append_logs h logs, restore_best_weights es1 m (emit (EarlyStop epoch) w2))
      else fit_epochs left K m ds vds (Suc epoch) es1 (append_logs h logs) w2) = (h', w')"
    by (auto simp: w2_def Let_def split: if_splits)
  show ?case
  proof (cases stop)
    case True
    with step have h': "h' = append_logs h logs"
      and w': "w' = restore_best_weights es1 m (emit (EarlyStop epoch) w2)"
      by simp_all
    have r: "events w' = events w2 @ [EarlyStop epoch]" "next_id w' = next_id w2"
      "loaded_layers w' = loaded_layers w2" "fs w' = fs w2"
      "\<forall>m'. m' \<noteq> m \<longrightarrow> weights w' m' = weights w2 m'"
      by (simp_all add: w' restore_best_weights_def emit_def split: option.splits)
    show ?thesis
      by (intro exI [of _ "Suc 0"]
          exI [of _ "[EpochEnd epoch logs, SaveWeights m (checkpoint_path (Suc epoch)),
                      EarlyStop epoch]"])
        (use r w2 h' in \<open>simp add: append_logs_def\<close>)
  next
    case False
    with step have "fit_epochs left K m ds vds (Suc epoch) es1 (append_logs h logs) w2 = (h', w')"
      by simp
    from Suc.IH [OF this] obtain k evs where IH:
      "k \<le> left" "events w' = events w2 @ evs"
      "weights_saved evs = map checkpoint_path [Suc (Suc epoch) ..< Suc (Suc epoch) + k]"
      "evaluations evs = []" "fit_calls evs = []" "models_saved evs = []"
      "early_stops evs = [] \<longrightarrow> k = left"
      "length (h_loss h') = length (h_loss (append_logs h logs)) + k"
      "dom (fs w') = dom (fs w2) \<union> checkpoint_path ` {Suc (Suc epoch) ..< Suc (Suc epoch) + k}"
      "next_id w' = next_id w2" "loaded_layers w' = loaded_layers w2"
      "\<forall>m'. m' \<noteq> m \<longrightarrow> weights w' m' = weights w2 m'"
      by blast
    have upt: "[Suc epoch ..< Suc epoch + Suc k] = Suc epoch # [Suc (Suc epoch) ..< Suc (Suc epoch) + k]"
      by (simp add: upt_rec)
    have img: "{Suc epoch ..< Suc epoch + Suc k}
                 = insert (Suc epoch) {Suc (Suc epoch) ..< Suc (Suc epoch) + k}"
      by auto
    show ?thesis
      apply (intro exI [of _ "Suc k"]
          exI [of _ "[EpochEnd epoch logs, SaveWeights m (checkpoint_path (Suc epoch))] @ evs"])
      apply (simp only: upt img)
      using IH w2 by (simp add: append_logs_def)
  qed
qed

subsection \<open>What a run of \<^verbatim>\<open>train_model\<close> does\<close>

lemma fit_run:
  assumes "fit K m ds vds epochs w = (h, w')"
  shows "\<exists>k evs. k \<le> nat epochs
     \<and> events w' = events w @ Fit m ds vds epochs # evs
     \<and> weights_saved evs = map checkpoint_path [1 ..< Suc k]
     \<and> evaluations evs = [] \<and> fit_calls evs = [] \<and> models_saved evs = []
     \<and> (early_stops evs = [] \<longrightarrow> k = nat epochs)
     \<and> length (h_loss h) = k
     \<and> dom (fs w') = dom (fs w) \<union> checkpoint_path ` {1 ..< Suc k}
     \<and> next_id w' = next_id w \<and> loaded_layers w' = loaded_layers w
     \<and> (\<forall>m'. m' \<noteq> m \<longrightarrow> weights w' m' = weights w m')"
proof -
  from assms have "fit_epochs (nat epochs) K m ds vds 0 early_stopping_init empty_history
       (emit (Fit m ds vds epochs) w) = (h, w')"
    by (simp add: fit_def)
  from fit_epochs_run [OF this] obtain k evs where
    "k \<le> nat epochs" "events w' = events (emit (Fit m ds vds epochs) w) @ evs"
    "weights_saved evs = map checkpoint_path [Suc 0 ..< Suc 0 + k]"
    "evaluations evs = []" "fit_calls evs = []" "models_saved evs = []"
    "early_stops evs = [] \<longrightarrow> k = nat epochs"
    "length (h_loss h) = length (h_loss empty_history) + k"
    "dom (fs w') = dom (fs (emit (Fit m ds vds epochs) w)) \<union> checkpoint_path ` {Suc 0 ..< Suc 0 + k}"
    "next_id w' = next_id (emit (Fit m ds vds epochs) w)"
    "loaded_layers w' = loaded_layers (emit (Fit m ds vds epochs) w)"
    "\<forall>m'. m' \<noteq> m \<longrightarrow> weights w' m' = weights (emit (Fit m ds vds epochs) w) m'"
    by blast
  then show ?thesis
    by (intro exI [of _ k] exI [of _ evs]) (simp add: emit_def empty_history_def)
qed

lemma load_model_events:
  assumes "load_model K p w = (r, w1)"
  shows "\<exists>evs. events w1 = events w @ evs
     \<and> weights_saved evs = [] \<and> evaluations evs = [] \<and> fit_calls evs = []
     \<and> models_saved evs = [] \<and> early_stops evs = []
     \<and> fs w1 = fs w \<and> next_id w \<le> next_id w1
     \<and> (\<forall>m. m \<noteq> Loaded (next_id w) \<longrightarrow> weights w1 m = weights w m)"
  using load_model_cases [OF assms] by auto

lemma test_model_events:
  assumes "test_model K p n w = (Inr r, w')"
  shows "\<exists>m w1 accs evs. load_model K p w = (Inr m, w1)
     \<and> events w' = events w @ evs
     \<and> evaluations evs = map (\<lambda>a. (m, weights w1 m, a)) accs
     \<and> length accs = nat n \<and> r = blend accs
     \<and> weights_saved evs = [] \<and> fit_calls evs = [] \<and> models_saved evs = []
     \<and> early_stops evs = []
     \<and> fs w' = fs w \<and> weights w' = weights w1 \<and> next_id w' = next_id w1"
proof -
  from test_model_run [OF assms] obtain m w1 d accs where
    run: "load_model K p w = (Inr m, w1)" "length accs = nat n"
      "events w' = events w1 @ [Compile m, Logged DEBUG ModelCompiled,
                                  ImageDatasetFromDirectory d]
                      @ map (\<lambda>a. Evaluate m (weights w1 m) d a) accs
                      @ [Printed (AverageAccuracy r), Logged INFO (Tested n r)]"
      "r = blend accs" "weights w' = weights w1" "fs w' = fs w1" "next_id w' = next_id w1"
    by blast
  from load_model_events [OF run(1)] obtain evs where
    evs: "events w1 = events w @ evs" "weights_saved evs = []" "evaluations evs = []"
      "fit_calls evs = []" "models_saved evs = []" "early_stops evs = []" "fs w1 = fs w"
    by blast
  have [simp]: "weights_saved (map (\<lambda>a. Evaluate m x d a) accs) = []"
    "fit_calls (map (\<lambda>a. Evaluate m x d a) accs) = []"
    "models_saved (map (\<lambda>a. Evaluate m x d a) accs) = []"
    "early_stops (map (\<lambda>a. Evaluate m x d a) accs) = []" for x
    by (induction accs) simp_all
  show ?thesis
    by (intro exI [of _ m] exI [of _ w1] exI [of _ accs]
        exI [of _ "evs @ [Compile m, Logged DEBUG ModelCompiled, ImageDatasetFromDirectory d]
                      @ map (\<lambda>a. Evaluate m (weights w1 m) d a) accs
                      @ [Printed (AverageAccuracy r), Logged INFO (Tested n r)]"])
      (use run evs in simp)
qed

lemma generate_dataset_run:
  assumes "generate_dataset bs training w = (d, w')"
  shows "events w' = events w @ [ImageDatasetFromDirectory d]
     \<and> ds_dir d = (if training then ''./dataset-resized/'' else ''./dataset-resized/val'')
     \<and> ds_batch_size d = bs \<and> ds_image_size d = (256, 256)
     \<and> weights w' = weights w \<and> fs w' = fs w \<and> next_id w' = next_id w
     \<and> loaded_layers w' = loaded_layers w"
  using assms
  by (auto simp: generate_dataset_def image_dataset_from_directory_def randint_def
      emit_def Let_def)

lemma load_model_ref:
  assumes "load_model K p w = (Inr m, w1)"
  shows "(m = NewModel \<and> weights w1 = weights w \<and> next_id w1 = next_id w)
       \<or> (m = Loaded (next_id w) \<and> next_id w1 = Suc (next_id w))"
  using load_model_cases [OF assms] by auto

lemma train_model_run:
  assumes "train_model K p epochs bs test (w::'w world) = (Inr h, w')"
  shows "\<exists>m d1 d2 k pre fit_evs test_evs (w3::'w world) w4 w5 w8 tested w8' accs.
      new_events w w' = pre @ [Compile m, Logged DEBUG ModelCompiled,
          ImageDatasetFromDirectory d1, ImageDatasetFromDirectory d2,
          Logged DEBUG DatasetLoaded, SaveWeights m (checkpoint_path 0),
          Fit m d1 d2 epochs] @ fit_evs @ test_evs
          @ [Save m (str_replace ''h5'' ''keras'' p), Logged DEBUG ModelSaved]
    \<and> weights_saved pre = [] \<and> evaluations pre = [] \<and> fit_calls pre = []
    \<and> models_saved pre = [] \<and> early_stops pre = []
    \<and> weights_saved fit_evs = map checkpoint_path [1 ..< Suc k]
    \<and> evaluations fit_evs = [] \<and> fit_calls fit_evs = [] \<and> models_saved fit_evs = []
    \<and> (early_stops fit_evs = [] \<longrightarrow> k = nat epochs)
    \<and> k \<le> nat epochs \<and> length (h_loss h) = k
    \<and> weights_saved test_evs = [] \<and> fit_calls test_evs = [] \<and> models_saved test_evs = []
    \<and> early_stops test_evs = []
    \<and> ds_dir d1 = ''./dataset-resized/'' \<and> ds_dir d2 = ''./dataset-resized/''
    \<and> ds_batch_size d1 = bs \<and> ds_batch_size d2 = bs
    \<and> ds_image_size d1 = (256, 256) \<and> ds_image_size d2 = (256, 256)
    \<and> generate_dataset bs training_default w3 = (d1, w4)
    \<and> generate_dataset bs training_default w4 = (d2, w5)
    \<and> dom (fs w') = insert (str_replace ''h5'' ''keras'' p)
                       (dom (fs w) \<union> checkpoint_path ` {0 ..< Suc k})
    \<and> fst (load_model K p w) = Inr m
    \<and> new_events w w8 = pre @ [Compile m, Logged DEBUG ModelCompiled,
          ImageDatasetFromDirectory d1, ImageDatasetFromDirectory d2,
          Logged DEBUG DatasetLoaded, SaveWeights m (checkpoint_path 0),
          Fit m d1 d2 epochs] @ fit_evs
    \<and> (\<not> test \<longrightarrow> test_evs = [])
    \<and> (test \<longrightarrow> load_model K p w8 = (Inr tested, w8')
          \<and> evaluations test_evs = map (\<lambda>a. (tested, weights w8' tested, a)) accs
          \<and> length accs = nat times_default
          \<and> (tested = m \<longrightarrow> m = NewModel \<and> weights w8' m = weights w8 m)
          \<and> weights w' = weights w8')"
proof -
  obtain r1 w1 where l: "load_model K p w = (r1, w1)"
    by (cases "load_model K p w") auto
  with assms obtain m where r1: "r1 = Inr m"
    by (cases r1) (auto simp: train_model_def)
  from l r1 have l1: "load_model K p w = (Inr m, w1)" by simp
  from load_model_events [OF l1] obtain pre where P:
    "events w1 = events w @ pre" "weights_saved pre = []" "evaluations pre = []"
    "fit_calls pre = []" "models_saved pre = []" "early_stops pre = []" "fs w1 = fs w"
    by (elim exE conjE)
  define w3 where "w3 = logging DEBUG ModelCompiled (compile m w1)"
  obtain d1 w4 where g1: "generate_dataset bs training_default w3 = (d1, w4)"
    by (cases "generate_dataset bs training_default w3") auto
  obtain d2 w5 where g2: "generate_dataset bs training_default w4 = (d2, w5)"
    by (cases "generate_dataset bs training_default w4") auto
  define w7 where "w7 = save_weights m (checkpoint_path 0) (logging DEBUG DatasetLoaded w5)"
  obtain h8 w8 where f: "fit K m d1 d2 epochs w7 = (h8, w8)"
    by (cases "fit K m d1 d2 epochs w7") auto
  obtain r9 w9 where t: "(if test then discard (test_model K p times_default w8)
                    else (Inr (), w8)) = (r9, w9)"
    by (cases "if test then discard (test_model K p times_default w8) else (Inr (), w8)") auto
  from assms l r1 g1 g2 f t have r9: "r9 = Inr ()"
    by (cases r9) (auto simp: train_model_def w3_def w7_def Let_def)
  from assms l r1 g1 g2 f t r9 have hh: "h = h8"
    and w': "w' = logging DEBUG ModelSaved (save m (str_replace ''h5'' ''keras'' p) w9)"
    by (auto simp: train_model_def w3_def w7_def Let_def)
  have w3: "events w3 = events w1 @ [Compile m, Logged DEBUG ModelCompiled]"
      "weights w3 = weights w1" "fs w3 = fs w1" "next_id w3 = next_id w1"
      "loaded_layers w3 = loaded_layers w1"
    by (simp_all add: w3_def logging_def compile_def emit_def)
  note G1 = generate_dataset_run [OF g1] and G2 = generate_dataset_run [OF g2]
  have w7: "events w7 = events w5 @ [Logged DEBUG DatasetLoaded, SaveWeights m (checkpoint_path 0)]"
      "weights w7 = weights w5" "dom (fs w7) = insert (checkpoint_path 0) (dom (fs w5))"
      "next_id w7 = next_id w5" "loaded_layers w7 = loaded_layers w5"
    by (simp_all add: w7_def logging_def save_weights_def emit_def)
  from fit_run [OF f] obtain k fit_evs where F:
    "k \<le> nat epochs" "events w8 = events w7 @ Fit m d1 d2 epochs # fit_evs"
    "weights_saved fit_evs = map checkpoint_path [1 ..< Suc k]"
    "evaluations fit_evs = []" "fit_calls fit_evs = []" "models_saved fit_evs = []"
    "early_stops fit_evs = [] \<longrightarrow> k = nat epochs"
    "length (h_loss h8) = k"
    "dom (fs w8) = dom (fs w7) \<union> checkpoint_path ` {1 ..< Suc k}"
    "next_id w8 = next_id w7" "loaded_layers w8 = loaded_layers w7"
    "\<forall>m'. m' \<noteq> m \<longrightarrow> weights w8 m' = weights w7 m'"
    by (elim exE conjE)
  have ev8: "events w8 = events w @ pre @ [Compile m, Logged DEBUG ModelCompiled,
          ImageDatasetFromDirectory d1, ImageDatasetFromDirectory d2,
          Logged DEBUG DatasetLoaded, SaveWeights m (checkpoint_path 0),
          Fit m d1 d2 epochs] @ fit_evs"
    using P(1) w3(1) G1 G2 w7(1) F(2) by simp
  have id8: "next_id w8 = next_id w1"
    using w3(4) G1 G2 w7(4) F(10) by simp
  have fs8: "dom (fs w8) = dom (fs w) \<union> checkpoint_path ` {0 ..< Suc k}"
  proof -
    have "{0 ..< Suc k} = insert 0 {1 ..< Suc k}" by auto
    then show ?thesis
      using P(7) w3(3) G1 G2 w7(3) F(9) by simp
  qed
  have T: "\<exists>test_evs tested w8' accs. events w9 = events w8 @ test_evs
      \<and> (\<not> test \<longrightarrow> test_evs = [])
      \<and> weights_saved test_evs = [] \<and> fit_calls test_evs = [] \<and> models_saved test_evs = []
      \<and> early_stops test_evs = [] \<and> fs w9 = fs w8
      \<and> (test \<longrightarrow> load_model K p w8 = (Inr tested, w8')
          \<and> evaluations test_evs = map (\<lambda>a. (tested, weights w8' tested, a)) accs
          \<and> length accs = nat times_default \<and> weights w9 = weights w8')"
  proof (cases test)
    case False
    with t show ?thesis by simp
  next
    case True
    with t r9 have d: "discard (test_model K p times_default w8) = (Inr (), w9)" by simp
    then obtain r where "test_model K p times_default w8 = (Inr r, w9)"
      by (cases "test_model K p times_default w8") (auto simp: discard_def split: sum.splits)
    from test_model_events [OF this] obtain tested w8' accs evs where
      "load_model K p w8 = (Inr tested, w8')" "events w9 = events w8 @ evs"
      "evaluations evs = map (\<lambda>a. (tested, weights w8' tested, a)) accs"
      "length accs = nat times_default"
      "weights_saved evs = []" "fit_calls evs = []" "models_saved evs = []"
      "early_stops evs = []" "fs w9 = fs w8" "weights w9 = weights w8'"
      by (elim exE conjE)
    with True show ?thesis
      by (intro exI [of _ evs] exI [of _ tested] exI [of _ w8'] exI [of _ accs]) simp
  qed
  then obtain test_evs tested w8' accs where TE:
    "events w9 = events w8 @ test_evs" "\<not> test \<longrightarrow> test_evs = []"
    "weights_saved test_evs = []" "fit_calls test_evs = []" "models_saved test_evs = []"
    "early_stops test_evs = []" "fs w9 = fs w8"
    "test \<longrightarrow> load_model K p w8 = (Inr tested, w8')
          \<and> evaluations test_evs = map (\<lambda>a. (tested, weights w8' tested, a)) accs
          \<and> length accs = nat times_default \<and> weights w9 = weights w8'"
    by (elim exE conjE)
  have same: "m = NewModel \<and> weights w8' m = weights w8 m"
    if "test" and "tested = m"
  proof -
    from that TE(8) have l8: "load_model K p w8 = (Inr m, w8')" by simp
    note A = load_model_ref [OF l1] and B = load_model_ref [OF l8]
    show ?thesis
    proof (cases m)
      case NewModel
      with B show ?thesis by simp
    next
      case (Loaded n)
      with A have "n = next_id w" and "next_id w1 = Suc (next_id w)" by simp_all
      moreover from Loaded B have "n = next_id w8" by simp
      ultimately show ?thesis using id8 by simp
    qed
  qed
  have W: "events w' = events w9 @ [Save m (str_replace ''h5'' ''keras'' p), Logged DEBUG ModelSaved]"
    "weights w' = weights w9"
    "dom (fs w') = insert (str_replace ''h5'' ''keras'' p) (dom (fs w9))"
    by (simp_all add: w' logging_def save_def emit_def)
  have E: "new_events w w' = pre @ [Compile m, Logged DEBUG ModelCompiled,
          ImageDatasetFromDirectory d1, ImageDatasetFromDirectory d2,
          Logged DEBUG DatasetLoaded, SaveWeights m (checkpoint_path 0),
          Fit m d1 d2 epochs] @ fit_evs @ test_evs
          @ [Save m (str_replace ''h5'' ''keras'' p), Logged DEBUG ModelSaved]"
    by (rule new_events_append) (simp add: W(1) TE(1) ev8)
  have E8: "new_events w w8 = pre @ [Compile m, Logged DEBUG ModelCompiled,
          ImageDatasetFromDirectory d1, ImageDatasetFromDirectory d2,
          Logged DEBUG DatasetLoaded, SaveWeights m (checkpoint_path 0),
          Fit m d1 d2 epochs] @ fit_evs"
    by (rule new_events_append) (simp add: ev8)
  have fs': "dom (fs w') = insert (str_replace ''h5'' ''keras'' p)
                       (dom (fs w) \<union> checkpoint_path ` {0 ..< Suc k})"
    by (simp add: W(3) TE(7) fs8)
  have tst: "test \<longrightarrow> load_model K p w8 = (Inr tested, w8')
          \<and> evaluations test_evs = map (\<lambda>a. (tested, weights w8' tested, a)) accs
          \<and> length accs = nat times_default
          \<and> (tested = m \<longrightarrow> m = NewModel \<and> weights w8' m = weights w8 m)
          \<and> weights w' = weights w8'"
    using TE(8) same W(2) by simp
  have ds: "ds_dir d1 = ''./dataset-resized/''" "ds_dir d2 = ''./dataset-resized/''"
    "ds_batch_size d1 = bs" "ds_batch_size d2 = bs"
    "ds_image_size d1 = (256, 256)" "ds_image_size d2 = (256, 256)"
    using G1 G2 by (simp_all add: training_default_def)
  have len: "length (h_loss h) = k" using hh F(8) by simp
  have fl: "fst (load_model K p w) = Inr m" using l1 by simp
  show ?thesis
    apply (rule exI [of _ m], rule exI [of _ d1], rule exI [of _ d2], rule exI [of _ k],
        rule exI [of _ pre], rule exI [of _ fit_evs], rule exI [of _ test_evs],
        rule exI [of _ w3], rule exI [of _ w4], rule exI [of _ w5], rule exI [of _ w8],
        rule exI [of _ tested], rule exI [of _ w8'], rule exI [of _ accs])
    apply (intro conjI)
    by (fact E P F TE ds g1 g2 fs' fl E8 tst len)+
qed

subsection \<open>The two concrete runs\<close>

lemma fit_epochs_numeral:
  "fit_epochs (numeral n) K model ds vds epoch es h w =
     (let (x, logs) = k_train_epoch K (clock w) (layers_of w model) (weights w model) ds vds epoch;
          w1 = (emit (EpochEnd epoch logs) w)
                 \<lparr>weights := (weights w)(model := x), clock := Suc (clock w)\<rparr>;
          h1 = append_logs h logs;
          (es1, stop) = early_stopping_on_epoch_end es (el_val_loss logs) x;
          w2 = save_weights model (checkpoint_path (Suc epoch)) w1
      in if stop then (h1, restore_best_weights es1 model (emit (EarlyStop epoch) w2))
         else fit_epochs (pred_numeral n) K model ds vds (Suc epoch) es1 h1 w2)"
  by (simp only: numeral_eq_Suc fit_epochs.simps)

lemma evaluate_loop_numeral:
  "evaluate_loop (numeral n) K model test_dataset avg_acc w =
     (let ((_, test_acc), w1) = evaluate K model test_dataset w
      in evaluate_loop (pred_numeral n) K model test_dataset ((avg_acc + test_acc) / 2) w1)"
  by (simp only: numeral_eq_Suc evaluate_loop.simps)

lemma checkpoint_path_first:
  "checkpoint_path 0 = ''./training/cp-0000.weights.h5''"
  "checkpoint_path (Suc 0) = ''./training/cp-0001.weights.h5''"
  "checkpoint_path (Suc (Suc 0)) = ''./training/cp-0002.weights.h5''"
  by (simp_all add: checkpoint_path_def zero_pad_def decimal.simps digit_char_def
      replicate_numeral)

lemma str_replace_driver_path:
  "str_replace ''h5'' ''keras'' ''sortbot_alpha_new.h5'' = ''sortbot_alpha_new.keras''"
  by (simp add: str_replace.simps)

lemmas demo_unfold =
  train_model_def test_model_def load_model_def discard_def fit_def
  generate_dataset_def image_dataset_from_directory_def randint_def evaluate_def
  compile_def logging_def py_print_def summary_def emit_def save_def save_weights_def
  new_object_def early_stopping_on_epoch_end_def early_stopping_init_def patience_def
  restore_best_weights_def append_logs_def empty_history_def
  isinstance_def py_or_def class_truthy_def times_default_def training_default_def
  demo_keras_def demo_world_def demo_history_def demo_dataset_def Let_def
  fit_epochs_numeral evaluate_loop_numeral checkpoint_path_first str_replace_driver_path
  replicate_numeral

lemma demo_run_eval:
  "fst demo_run = Inr demo_history"
  "events (snd demo_run) = demo_events"
  by (simp_all add: demo_run_def demo_events_def demo_unfold
      cong: let_weak_cong prod.case_cong_weak sum.case_cong_weak option.case_cong_weak
        artifact.case_cong_weak)



lemma demo_run_returns:
  "train_model demo_keras ''sortbot_alpha_new.h5'' 2 32 True demo_world
     = (Inr demo_history, snd demo_run)"
proof -
  have "demo_run = (Inr demo_history, snd demo_run)"
    by (simp add: prod_eq_iff demo_run_eval)
  then show ?thesis unfolding demo_run_def .
qed




subsection \<open>Training and validation data\<close>



subsection \<open>Checkpoints\<close>



subsection \<open>The saved model\<close>

text \<open>
  Claim C9. A run of \<^verbatim>\<open>train_model\<close> that returns saves the model once, under
  \<^verbatim>\<open>model_path.replace("h5", "keras")\<close>: every occurrence of \<^verbatim>\<open>h5\<close> is rewritten, so none
  is left in the path, wherever in \<^verbatim>\<open>model_path\<close> it stood. So
  \<^verbatim>\<open>h5_runs/model.h5\<close> is saved as \<^verbatim>\<open>keras_runs/model.keras\<close>, and the driver's
  \<^verbatim>\<open>sortbot_alpha_new.h5\<close> as \<^verbatim>\<open>sortbot_alpha_new.keras\<close>.
\<close>

theorem train_model_save_path:
  assumes "train_model K model_path epochs batch_size test w = (Inr history, w')"
  shows "map snd (models_saved (new_events w w')) = [str_replace ''h5'' ''keras'' model_path]
       \<and> str_replace ''h5'' ''keras'' model_path \<in> dom (fs w')
       \<and> \<not> occurs ''h5'' (str_replace ''h5'' ''keras'' model_path)
       \<and> str_replace ''h5'' ''keras'' ''h5_runs/model.h5'' = ''keras_runs/model.keras''
       \<and> str_replace ''h5'' ''keras'' ''sortbot_alpha_new.h5'' = ''sortbot_alpha_new.keras''"
proof -
  from train_model_run [OF assms]
  obtain m d1 d2 k pre fit_evs test_evs where R:
    "new_events w w' = pre @ [Compile m, Logged DEBUG ModelCompiled,
          ImageDatasetFromDirectory d1, ImageDatasetFromDirectory d2,
          Logged DEBUG DatasetLoaded, SaveWeights m (checkpoint_path 0),
          Fit m d1 d2 epochs] @ fit_evs @ test_evs
          @ [Save m (str_replace ''h5'' ''keras'' model_path), Logged DEBUG ModelSaved]"
    "models_saved pre = []" "models_saved fit_evs = []" "models_saved test_evs = []"
    "dom (fs w') = insert (str_replace ''h5'' ''keras'' model_path)
                       (dom (fs w) \<union> checkpoint_path ` {0 ..< Suc k})"
    by (elim exE conjE)
  have ex: "str_replace ''h5'' ''keras'' ''sortbot_alpha_new.h5'' = ''sortbot_alpha_new.keras''"
    by (simp add: str_replace.simps)
  have ms: "models_saved (new_events w w') = [(m, str_replace ''h5'' ''keras'' model_path)]"
    by (simp add: R(1-4))
  show ?thesis
    using ms ex R(5) str_replace_no_h5 [of model_path] by (simp add: str_replace_example)
qed

theorem train_model_save_path_witness:
  "train_model demo_keras ''sortbot_alpha_new.h5'' 2 32 True demo_world
     = (Inr demo_history, snd demo_run)
   \<and> map snd (models_saved (new_events demo_world (snd demo_run)))
       = [''sortbot_alpha_new.keras'']
   \<and> ''sortbot_alpha_new.keras'' \<in> dom (fs (snd demo_run))
   \<and> \<not> occurs ''h5'' ''sortbot_alpha_new.keras''"
  using demo_run_returns train_model_save_path [OF demo_run_returns]
  by (simp add: str_replace_driver_path)

subsection \<open>Testing after training\<close>




end
